theory Spec2Isabelle
  imports Complex_Main "HOL-Library.Word"
begin

section \<open>The notebook docs/jax-101/02-jitting.ipynb\<close>

text \<open>
  The notebook defines a handful of Python functions (\<open>log2\<close>, \<open>log2_with_print\<close>,
  \<open>log2_if_rank_2\<close>, \<open>selu\<close>, \<open>f\<close>, \<open>g\<close>, \<open>loop_body\<close>, \<open>g_inner_jitted\<close>,
  \<open>unjitted_loop_body\<close>, \<open>g_inner_jitted_poorly\<close>) and runs them directly, under
  \<open>jax.make_jaxpr\<close> and under \<open>jax.jit\<close>. The functions are embedded once, over the
  values a Python session holds, in a monad of state and exceptions; the same definition is
  then run on concrete values and on tracers, as the interpreter runs the same source text.
\<close>

subsection \<open>Values\<close>

datatype dtype = Int32 | Float32 | Boolean

text \<open>An abstract value \<open>ShapedArray(dtype[shape])\<close>: a shape and an element type, no value.\<close>

datatype aval = ShapedArray dtype "nat list"

text \<open>
  Python ints are unbounded. A rank-0 \<open>DeviceArray\<close> of dtype int32 holds 32 bits (the
  recorded output of \<open>g_inner_jitted(10, 20)\<close> is \<open>DeviceArray(30, dtype=int32)\<close>).
  Floats are idealised as reals. An array of rank at least one carries its element type, its
  shape and its elements in row-major order.
\<close>

datatype pyval =
    PyInt int
  | PyFloat real
  | PyBool bool
  | DevInt "32 word"
  | DevFloat real
  | DevBool bool
  | DevArray dtype "nat list" "real list"
  | Tracer nat aval

subsection \<open>Jaxprs\<close>

datatype prim = Log | Exp | Div | Add | Sub | Mul | Lt | Gt | Select

datatype atom = Var nat | Lit pyval

text \<open>\<open>Eqn v p as\<close> is the line \<open>v = p as\<close> of a jaxpr.\<close>

datatype eqn = Eqn nat prim "atom list"

record jaxpr =
  invars :: "nat list"
  eqns :: "eqn list"
  outs :: "atom list"

subsection \<open>Session state and exceptions\<close>

datatype error =
    TypeError
  | AttributeError
  | ValueError
  | ZeroDivisionError
  | OverflowError
  | ConcretizationTypeError
  | UnexpectedTracerError
  | MalformedJaxpr
  | Unmodelled

datatype printed = Text string | Val pyval

text \<open>
  \<open>global_list\<close> is the module-level list of the first cell, \<open>stdout\<close> the lines printed so
  far, \<open>trace\<close> the trace in progress, if any: the equations recorded so far and the next
  fresh variable.
\<close>

record pyst =
  global_list :: "pyval list"
  stdout :: "printed list list"
  trace :: "(eqn list \<times> nat) option"

text \<open>
  A computation takes the state and returns a value or an exception, and the state it left:
  what a Python function did before it raised stays done.
\<close>

type_synonym 'a py = "pyst \<Rightarrow> (error + 'a) \<times> pyst"

definition ret :: "'a \<Rightarrow> 'a py" where
  "ret a s = (Inr a, s)"

definition raise :: "error \<Rightarrow> 'a py" where
  "raise e s = (Inl e, s)"

definition bind :: "'a py \<Rightarrow> ('a \<Rightarrow> 'b py) \<Rightarrow> 'b py" where
  "bind m k s = (case m s of (Inl e, s') \<Rightarrow> (Inl e, s') | (Inr a, s') \<Rightarrow> k a s')"

subsection \<open>Modelled framework: abstract values and primitives\<close>

text \<open>
  The array framework itself (\<open>jax\<close>, \<open>jax.numpy\<close>) is not among the sources. What
  follows is the fragment of it the notebook's cells use, as the spec's glossary, the
  notebook's prose and its recorded outputs describe it.
\<close>

text \<open>
  Modelled from the spec: the abstract value the framework gives a value when it traces, at
  the level \<open>ShapedArray\<close> (a shape and an element type; the notebook's default types are
  int32 and float32).
\<close>

fun abstractify :: "pyval \<Rightarrow> aval" where
  "abstractify (PyInt _) = ShapedArray Int32 []"
| "abstractify (PyFloat _) = ShapedArray Float32 []"
| "abstractify (PyBool _) = ShapedArray Boolean []"
| "abstractify (DevInt _) = ShapedArray Int32 []"
| "abstractify (DevFloat _) = ShapedArray Float32 []"
| "abstractify (DevBool _) = ShapedArray Boolean []"
| "abstractify (DevArray d sh _) = ShapedArray d sh"
| "abstractify (Tracer _ a) = a"

fun aval_shape :: "aval \<Rightarrow> nat list" where
  "aval_shape (ShapedArray _ sh) = sh"

text \<open>Broadcasting of two shapes, on the reversed shapes: trailing dimensions are aligned.\<close>

fun bdims :: "nat list \<Rightarrow> nat list \<Rightarrow> nat list option" where
  "bdims [] ys = Some ys"
| "bdims xs [] = Some xs"
| "bdims (x # xs) (y # ys) =
     (if x = y \<or> y = 1 then map_option ((#) x) (bdims xs ys)
      else if x = 1 then map_option ((#) y) (bdims xs ys)
      else None)"

definition broadcast_shapes :: "nat list \<Rightarrow> nat list \<Rightarrow> nat list option" where
  "broadcast_shapes s1 s2 = map_option rev (bdims (rev s1) (rev s2))"

definition promote :: "dtype \<Rightarrow> dtype \<Rightarrow> dtype" where
  "promote d1 d2 =
     (if d1 = Float32 \<or> d2 = Float32 then Float32
      else if d1 = Int32 \<or> d2 = Int32 then Int32
      else Boolean)"

text \<open>
  Modelled from the spec: the abstract value of a primitive's result, which the tracer for the
  result carries; \<open>None\<close> where the shapes or the arity do not fit.
\<close>

fun prim_aval :: "prim \<Rightarrow> aval list \<Rightarrow> aval option" where
  "prim_aval Log [ShapedArray _ sh] = Some (ShapedArray Float32 sh)"
| "prim_aval Exp [ShapedArray _ sh] = Some (ShapedArray Float32 sh)"
| "prim_aval Div [ShapedArray _ s1, ShapedArray _ s2] =
     map_option (ShapedArray Float32) (broadcast_shapes s1 s2)"
| "prim_aval Add [ShapedArray d1 s1, ShapedArray d2 s2] =
     map_option (ShapedArray (promote d1 d2)) (broadcast_shapes s1 s2)"
| "prim_aval Sub [ShapedArray d1 s1, ShapedArray d2 s2] =
     (if d1 = Boolean \<and> d2 = Boolean then None
      else map_option (ShapedArray (promote d1 d2)) (broadcast_shapes s1 s2))"
| "prim_aval Mul [ShapedArray d1 s1, ShapedArray d2 s2] =
     map_option (ShapedArray (promote d1 d2)) (broadcast_shapes s1 s2)"
| "prim_aval Lt [ShapedArray _ s1, ShapedArray _ s2] =
     map_option (ShapedArray Boolean) (broadcast_shapes s1 s2)"
| "prim_aval Gt [ShapedArray _ s1, ShapedArray _ s2] =
     map_option (ShapedArray Boolean) (broadcast_shapes s1 s2)"
| "prim_aval Select [ShapedArray _ s0, ShapedArray d1 s1, ShapedArray d2 s2] =
     (case broadcast_shapes s1 s2 of
        None \<Rightarrow> None
      | Some s12 \<Rightarrow> map_option (ShapedArray (promote d1 d2)) (broadcast_shapes s0 s12))"
| "prim_aval _ _ = None"

text \<open>
  Modelled from the spec: scalars on the device. A Python int is converted to int32 when it
  meets the device and is refused when it does not fit; int32 arithmetic on the device wraps
  around.
\<close>

datatype dnum = DI "32 word" | DF real | DB bool

definition int32_of_int :: "int \<Rightarrow> error + 32 word" where
  "int32_of_int k =
     (if - (2 ^ 31) \<le> k \<and> k < 2 ^ 31 then Inr (word_of_int k) else Inl OverflowError)"

fun device_put :: "pyval \<Rightarrow> error + dnum" where
  "device_put (PyInt k) = (case int32_of_int k of Inl e \<Rightarrow> Inl e | Inr w \<Rightarrow> Inr (DI w))"
| "device_put (PyFloat x) = Inr (DF x)"
| "device_put (PyBool b) = Inr (DB b)"
| "device_put (DevInt w) = Inr (DI w)"
| "device_put (DevFloat x) = Inr (DF x)"
| "device_put (DevBool b) = Inr (DB b)"
| "device_put (DevArray _ _ _) = Inl Unmodelled"
| "device_put (Tracer _ _) = Inl UnexpectedTracerError"

fun of_dnum :: "dnum \<Rightarrow> pyval" where
  "of_dnum (DI w) = DevInt w"
| "of_dnum (DF x) = DevFloat x"
| "of_dnum (DB b) = DevBool b"

fun dreal :: "dnum \<Rightarrow> real" where
  "dreal (DI w) = real_of_int (sint w)"
| "dreal (DF x) = x"
| "dreal (DB b) = of_bool b"

fun dword :: "dnum \<Rightarrow> 32 word" where
  "dword (DI w) = w"
| "dword (DF x) = 0"
| "dword (DB b) = of_bool b"

fun is_DF :: "dnum \<Rightarrow> bool" where
  "is_DF (DF _) = True"
| "is_DF _ = False"

fun is_DB :: "dnum \<Rightarrow> bool" where
  "is_DB (DB _) = True"
| "is_DB _ = False"

text \<open>
  Modelled from the spec: a primitive of the framework on device scalars. Infinities and NaN
  are not modelled: the logarithm of a non-positive number and a division by zero are
  \<open>Unmodelled\<close>, not a number.
\<close>

fun dcompare :: "bool \<Rightarrow> dnum \<Rightarrow> dnum \<Rightarrow> bool" where
  "dcompare lt (DI a) (DI b) = (if lt then a <s b else b <s a)"
| "dcompare lt a b = (if lt then dreal a < dreal b else dreal b < dreal a)"

fun eval_prim :: "prim \<Rightarrow> dnum list \<Rightarrow> error + dnum" where
  "eval_prim Log [a] = (if 0 < dreal a then Inr (DF (ln (dreal a))) else Inl Unmodelled)"
| "eval_prim Exp [a] = Inr (DF (exp (dreal a)))"
| "eval_prim Div [a, b] =
     (if dreal b = 0 then Inl Unmodelled else Inr (DF (dreal a / dreal b)))"
| "eval_prim Add [a, b] =
     (if is_DF a \<or> is_DF b then Inr (DF (dreal a + dreal b))
      else if is_DB a \<and> is_DB b then Inr (DB (dreal a \<noteq> 0 \<or> dreal b \<noteq> 0))
      else Inr (DI (dword a + dword b)))"
| "eval_prim Sub [a, b] =
     (if is_DF a \<or> is_DF b then Inr (DF (dreal a - dreal b))
      else if is_DB a \<and> is_DB b then Inl TypeError
      else Inr (DI (dword a - dword b)))"
| "eval_prim Mul [a, b] =
     (if is_DF a \<or> is_DF b then Inr (DF (dreal a * dreal b))
      else if is_DB a \<and> is_DB b then Inr (DB (dreal a \<noteq> 0 \<and> dreal b \<noteq> 0))
      else Inr (DI (dword a * dword b)))"
| "eval_prim Lt [a, b] = Inr (DB (dcompare True a b))"
| "eval_prim Gt [a, b] = Inr (DB (dcompare False a b))"
| "eval_prim Select [c, a, b] =
     (if is_DF a \<or> is_DF b then Inr (DF (if dreal c = 0 then dreal b else dreal a))
      else if is_DB a \<and> is_DB b then Inr (DB (if dreal c = 0 then dreal b \<noteq> 0 else dreal a \<noteq> 0))
      else Inr (DI (if dreal c = 0 then dword b else dword a)))"
| "eval_prim _ _ = Inl TypeError"

fun sequence_sum :: "(error + 'a) list \<Rightarrow> error + 'a list" where
  "sequence_sum [] = Inr []"
| "sequence_sum (x # xs) =
     (case x of Inl e \<Rightarrow> Inl e
      | Inr a \<Rightarrow> (case sequence_sum xs of Inl e \<Rightarrow> Inl e | Inr as \<Rightarrow> Inr (a # as)))"

definition eager :: "prim \<Rightarrow> pyval list \<Rightarrow> error + pyval" where
  "eager p vs =
     (case sequence_sum (map device_put vs) of Inl e \<Rightarrow> Inl e
      | Inr ds \<Rightarrow> (case eval_prim p ds of Inl e \<Rightarrow> Inl e | Inr d \<Rightarrow> Inr (of_dnum d)))"

fun atom_of :: "pyval \<Rightarrow> atom" where
  "atom_of (Tracer v _) = Var v"
| "atom_of x = Lit x"

fun is_Tracer :: "pyval \<Rightarrow> bool" where
  "is_Tracer (Tracer _ _) = True"
| "is_Tracer _ = False"

text \<open>
  Modelled from the spec: a call of a framework operation. While a trace is in progress the
  operation is not executed: a line is added to the trace and a tracer for the result is
  returned (so \<open>jnp.log(2.0)\<close> gives the line \<open>c = log 2.0\<close> of the first cell's output).
  Otherwise it is executed on the device.
\<close>

definition jax_bind :: "prim \<Rightarrow> pyval list \<Rightarrow> pyval py" where
  "jax_bind p vs s =
     (case trace s of
        Some (es, k) \<Rightarrow>
          (case prim_aval p (map abstractify vs) of
             None \<Rightarrow> (Inl TypeError, s)
           | Some a \<Rightarrow>
               (Inr (Tracer k a), s\<lparr>trace := Some (es @ [Eqn k p (map atom_of vs)], Suc k)\<rparr>))
      | None \<Rightarrow>
          (if list_ex is_Tracer vs then (Inl UnexpectedTracerError, s)
           else (eager p vs, s)))"

subsection \<open>Python operators\<close>

text \<open>
  An operator on two Python numbers is Python's own arithmetic (a bool counts as 0 or 1);
  as soon as one operand is an array or a tracer the operator is the framework's.
\<close>

datatype pynum = I int | F real

fun py_num :: "pyval \<Rightarrow> pynum option" where
  "py_num (PyInt k) = Some (I k)"
| "py_num (PyBool b) = Some (I (of_bool b))"
| "py_num (PyFloat x) = Some (F x)"
| "py_num _ = None"

fun num_real :: "pynum \<Rightarrow> real" where
  "num_real (I k) = real_of_int k"
| "num_real (F x) = x"

fun python_arith :: "prim \<Rightarrow> pynum \<Rightarrow> pynum \<Rightarrow> error + pyval" where
  "python_arith Add (I a) (I b) = Inr (PyInt (a + b))"
| "python_arith Add a b = Inr (PyFloat (num_real a + num_real b))"
| "python_arith Sub (I a) (I b) = Inr (PyInt (a - b))"
| "python_arith Sub a b = Inr (PyFloat (num_real a - num_real b))"
| "python_arith Mul (I a) (I b) = Inr (PyInt (a * b))"
| "python_arith Mul a b = Inr (PyFloat (num_real a * num_real b))"
| "python_arith Div a b =
     (if num_real b = 0 then Inl ZeroDivisionError else Inr (PyFloat (num_real a / num_real b)))"
| "python_arith Lt a b = Inr (PyBool (num_real a < num_real b))"
| "python_arith Gt a b = Inr (PyBool (num_real a > num_real b))"
| "python_arith _ a b = Inl TypeError"

definition py_binop :: "prim \<Rightarrow> pyval \<Rightarrow> pyval \<Rightarrow> pyval py" where
  "py_binop p a b s =
     (case (py_num a, py_num b) of
        (Some u, Some v) \<Rightarrow> (python_arith p u v, s)
      | _ \<Rightarrow> jax_bind p [a, b] s)"

definition py_add :: "pyval \<Rightarrow> pyval \<Rightarrow> pyval py" where
  "py_add = py_binop Add"


definition py_mul :: "pyval \<Rightarrow> pyval \<Rightarrow> pyval py" where
  "py_mul = py_binop Mul"

definition py_truediv :: "pyval \<Rightarrow> pyval \<Rightarrow> pyval py" where
  "py_truediv = py_binop Div"

definition py_lt :: "pyval \<Rightarrow> pyval \<Rightarrow> pyval py" where
  "py_lt = py_binop Lt"

definition py_gt :: "pyval \<Rightarrow> pyval \<Rightarrow> pyval py" where
  "py_gt = py_binop Gt"

definition jnp_log :: "pyval \<Rightarrow> pyval py" where
  "jnp_log x = jax_bind Log [x]"



text \<open>
  \<open>bool(v)\<close>, which \<open>if\<close> and \<open>while\<close> apply to their condition. A tracer has no concrete
  value: the framework raises \<open>ConcretizationTypeError\<close> (the recorded error of the cells
  that call \<open>f_jit\<close> and \<open>g_jit\<close>: "The problem arose with the bool function").
\<close>

fun py_truth :: "pyval \<Rightarrow> bool py" where
  "py_truth (PyInt k) = ret (k \<noteq> 0)"
| "py_truth (PyFloat x) = ret (x \<noteq> 0)"
| "py_truth (PyBool b) = ret b"
| "py_truth (DevInt w) = ret (w \<noteq> 0)"
| "py_truth (DevFloat x) = ret (x \<noteq> 0)"
| "py_truth (DevBool b) = ret b"
| "py_truth (DevArray _ _ xs) =
     (case xs of [x] \<Rightarrow> ret (x \<noteq> 0) | _ \<Rightarrow> raise ValueError)"
| "py_truth (Tracer _ _) = raise ConcretizationTypeError"

text \<open>\<open>x.ndim\<close>: arrays and tracers have a rank, Python numbers have no such attribute.\<close>

fun py_ndim :: "pyval \<Rightarrow> nat py" where
  "py_ndim (PyInt _) = raise AttributeError"
| "py_ndim (PyFloat _) = raise AttributeError"
| "py_ndim (PyBool _) = raise AttributeError"
| "py_ndim v = ret (length (aval_shape (abstractify v)))"

definition list_append :: "pyval \<Rightarrow> unit py" where
  "list_append x s = (Inr (), s\<lparr>global_list := global_list s @ [x]\<rparr>)"

definition py_print :: "printed list \<Rightarrow> unit py" where
  "py_print line s = (Inr (), s\<lparr>stdout := stdout s @ [line]\<rparr>)"

subsection \<open>Modelled framework: tracing and compilation\<close>

text \<open>
  \<open>jax.make_jaxpr\<close> and \<open>jax.jit\<close> are not among the sources either.
\<close>

text \<open>
  Modelled from the spec: tracing, "executing a function once with placeholder values to
  record the sequence of operations" (the spec's glossary). The Python function is run once,
  under a fresh trace, on the arguments given (tracers, where the caller put them); the jaxpr
  is what the trace recorded. The function's own effects on the session happen during that
  run and stay.
\<close>

definition trace_to_jaxpr :: "(pyval list \<Rightarrow> pyval py) \<Rightarrow> nat \<Rightarrow> pyval list \<Rightarrow> jaxpr py" where
  "trace_to_jaxpr fn nin args s =
     (case fn args (s\<lparr>trace := Some ([], nin)\<rparr>) of
        (Inl e, s') \<Rightarrow> (Inl e, s'\<lparr>trace := None\<rparr>)
      | (Inr r, s') \<Rightarrow>
          (Inr \<lparr>invars = [0..<nin],
                eqns = (case trace s' of Some (es, _) \<Rightarrow> es | None \<Rightarrow> []),
                outs = [atom_of r]\<rparr>,
           s'\<lparr>trace := None\<rparr>))"

text \<open>
  The arguments as the traced function sees them: an argument at a static position is passed
  as it is, every other one is replaced by the next tracer, of the argument's abstract value.
\<close>

fun place :: "nat list \<Rightarrow> nat \<Rightarrow> nat \<Rightarrow> pyval list \<Rightarrow> pyval list" where
  "place static pos k [] = []"
| "place static pos k (a # as) =
     (if pos \<in> set static then a # place static (Suc pos) k as
      else Tracer k (abstractify a) # place static (Suc pos) (Suc k) as)"

fun dynamic_args :: "nat list \<Rightarrow> nat \<Rightarrow> pyval list \<Rightarrow> pyval list" where
  "dynamic_args static pos [] = []"
| "dynamic_args static pos (a # as) =
     (if pos \<in> set static then dynamic_args static (Suc pos) as
      else a # dynamic_args static (Suc pos) as)"

text \<open>
  Modelled from the spec: \<open>jax.make_jaxpr(fn)(*args)\<close>, which traces \<open>fn\<close> with every
  argument replaced by a tracer. Transformations nested inside a trace are not modelled.
\<close>

definition make_jaxpr :: "(pyval list \<Rightarrow> pyval py) \<Rightarrow> pyval list \<Rightarrow> jaxpr py" where
  "make_jaxpr fn args s =
     (if trace s \<noteq> None then (Inl Unmodelled, s)
      else trace_to_jaxpr fn (length args) (place [] 0 0 args) s)"

text \<open>
  Modelled from the spec: running compiled code. The jaxpr's equations are evaluated in order
  on device scalars; the compiler is taken to preserve the meaning of the jaxpr.
\<close>

fun eval_atom :: "(nat \<rightharpoonup> dnum) \<Rightarrow> atom \<Rightarrow> error + dnum" where
  "eval_atom env (Var v) = (case env v of None \<Rightarrow> Inl MalformedJaxpr | Some d \<Rightarrow> Inr d)"
| "eval_atom env (Lit x) = device_put x"

fun eval_eqns :: "(nat \<rightharpoonup> dnum) \<Rightarrow> eqn list \<Rightarrow> error + (nat \<rightharpoonup> dnum)" where
  "eval_eqns env [] = Inr env"
| "eval_eqns env (Eqn v p as # es) =
     (case sequence_sum (map (eval_atom env) as) of
        Inl e \<Rightarrow> Inl e
      | Inr ds \<Rightarrow>
          (case eval_prim p ds of
             Inl e \<Rightarrow> Inl e
           | Inr d \<Rightarrow> eval_eqns (env(v \<mapsto> d)) es))"

definition eval_jaxpr :: "jaxpr \<Rightarrow> pyval list \<Rightarrow> error + pyval list" where
  "eval_jaxpr jp args =
     (if length args \<noteq> length (invars jp) then Inl TypeError
      else
        (case sequence_sum (map device_put args) of
           Inl e \<Rightarrow> Inl e
         | Inr ds \<Rightarrow>
             (case eval_eqns (map_of (zip (invars jp) ds)) (eqns jp) of
                Inl e \<Rightarrow> Inl e
              | Inr env \<Rightarrow>
                  (case sequence_sum (map (eval_atom env) (outs jp)) of
                     Inl e \<Rightarrow> Inl e
                   | Inr rs \<Rightarrow> Inr (map of_dnum rs)))))"

text \<open>
  Modelled from the spec: \<open>jax.jit(fn, static_argnums=static)(*args)\<close>. The function is
  traced, and the compiled jaxpr is run on the arguments that are not static. The compilation
  cache, which decides how often the tracing happens, is not modelled: every call traces.
  The notebook jits no function with an effect on the session, so the results are the same.
\<close>

definition jit :: "(pyval list \<Rightarrow> pyval py) \<Rightarrow> nat list \<Rightarrow> pyval list \<Rightarrow> pyval py" where
  "jit fn static args s =
     (if trace s \<noteq> None then (Inl Unmodelled, s)
      else
        (case trace_to_jaxpr fn (length (dynamic_args static 0 args)) (place static 0 0 args) s of
           (Inl e, s') \<Rightarrow> (Inl e, s')
         | (Inr jp, s') \<Rightarrow>
             (case eval_jaxpr jp (dynamic_args static 0 args) of
                Inl e \<Rightarrow> (Inl e, s')
              | Inr [r] \<Rightarrow> (Inr r, s')
              | Inr _ \<Rightarrow> (Inl Unmodelled, s'))))"

text \<open>A Python function of one or of two positional parameters, applied to an argument list.\<close>

definition call1 :: "(pyval \<Rightarrow> pyval py) \<Rightarrow> pyval list \<Rightarrow> pyval py" where
  "call1 fn args = (case args of [x] \<Rightarrow> fn x | _ \<Rightarrow> raise TypeError)"

definition call2 :: "(pyval \<Rightarrow> pyval \<Rightarrow> pyval py) \<Rightarrow> pyval list \<Rightarrow> pyval py" where
  "call2 fn args = (case args of [x, y] \<Rightarrow> fn x y | _ \<Rightarrow> raise TypeError)"

subsection \<open>The notebook's functions\<close>

text \<open>
  \<^verbatim>\<open>
  global_list = []

  def log2(x):
    global_list.append(x)
    ln_x = jnp.log(x)
    ln_2 = jnp.log(2.0)
    return ln_x / ln_2
  \<close>
\<close>

definition initial :: pyst where
  "initial = \<lparr>global_list = [], stdout = [], trace = None\<rparr>"

definition log2 :: "pyval \<Rightarrow> pyval py" where
  "log2 x =
     bind (list_append x) (\<lambda>_.
     bind (jnp_log x) (\<lambda>ln_x.
     bind (jnp_log (PyFloat 2)) (\<lambda>ln_2.
     py_truediv ln_x ln_2)))"

text \<open>
  \<^verbatim>\<open>
  def log2_with_print(x):
    print("printed x:", x)
    ln_x = jnp.log(x)
    ln_2 = jnp.log(2.0)
    return ln_x / ln_2
  \<close>
\<close>

definition log2_with_print :: "pyval \<Rightarrow> pyval py" where
  "log2_with_print x =
     bind (py_print [Text ''printed x:'', Val x]) (\<lambda>_.
     bind (jnp_log x) (\<lambda>ln_x.
     bind (jnp_log (PyFloat 2)) (\<lambda>ln_2.
     py_truediv ln_x ln_2)))"

text \<open>
  \<^verbatim>\<open>
  def log2_if_rank_2(x):
    if x.ndim == 2:
      ln_x = jnp.log(x)
      ln_2 = jnp.log(2.0)
      return ln_x / ln_2
    else:
      return x
  \<close>
\<close>

definition log2_if_rank_2 :: "pyval \<Rightarrow> pyval py" where
  "log2_if_rank_2 x =
     bind (py_ndim x) (\<lambda>r.
     if r = 2 then
       bind (jnp_log x) (\<lambda>ln_x.
       bind (jnp_log (PyFloat 2)) (\<lambda>ln_2.
       py_truediv ln_x ln_2))
     else ret x)"




text \<open>
  \<^verbatim>\<open>
  def f(x):
    if x > 0:
      return x
    else:
      return 2 * x

  f_jit = jax.jit(f)
  f_jit_correct = jax.jit(f, static_argnums=0)
  \<close>
\<close>

definition f :: "pyval \<Rightarrow> pyval py" where
  "f x =
     bind (py_gt x (PyInt 0)) (\<lambda>c.
     bind (py_truth c) (\<lambda>b.
     if b then ret x else py_mul (PyInt 2) x))"

definition f_jit :: "pyval \<Rightarrow> pyval py" where
  "f_jit x = jit (call1 f) [] [x]"

definition f_jit_correct :: "pyval \<Rightarrow> pyval py" where
  "f_jit_correct x = jit (call1 f) [0] [x]"

text \<open>
  \<^verbatim>\<open>
  def g(x, n):
    i = 0
    while i < n:
      i += 1
    return x + i

  g_jit = jax.jit(g)
  g_jit_correct = jax.jit(g, static_argnums=1)
  \<close>
  \<open>i\<close> is a Python int throughout: it starts as \<open>0\<close> and \<open>i += 1\<close> on an int is an int.
  The loop is \<open>g_while\<close>; its third argument counts the executions of the loop body (it is
  not a variable of the program) and is returned beside the final \<open>i\<close>.
\<close>

function g_while :: "int \<Rightarrow> pyval \<Rightarrow> nat \<Rightarrow> (int \<times> nat) py" where
  "g_while i n k s =
     (case py_lt (PyInt i) n s of
        (Inl e, s1) \<Rightarrow> (Inl e, s1)
      | (Inr c, s1) \<Rightarrow>
          (case py_truth c s1 of
             (Inl e, s2) \<Rightarrow> (Inl e, s2)
           | (Inr b, s2) \<Rightarrow> if b then g_while (i + 1) n (Suc k) s2 else (Inr (i, k), s2)))"
  by pat_completeness auto

definition g :: "pyval \<Rightarrow> pyval \<Rightarrow> pyval py" where
  "g x n = bind (g_while 0 n 0) (\<lambda>(i, k). py_add x (PyInt i))"

definition g_jit :: "pyval \<Rightarrow> pyval \<Rightarrow> pyval py" where
  "g_jit x n = jit (call2 g) [] [x, n]"

definition g_jit_correct :: "pyval \<Rightarrow> pyval \<Rightarrow> pyval py" where
  "g_jit_correct x n = jit (call2 g) [1] [x, n]"

text \<open>
  \<^verbatim>\<open>
  @jax.jit
  def loop_body(prev_i):
    return prev_i + 1

  def g_inner_jitted(x, n):
    i = 0
    while i < n:
      i = loop_body(i)
    return x + i
  \<close>
  Here \<open>i\<close> is a device integer after the first round, and the loop need not end on every
  input (an int32 \<open>i\<close> never reaches a float bound above \<open>2^31\<close>): the loop returns an option,
  \<open>None\<close> when it runs forever.
\<close>

definition loop_body_undecorated :: "pyval \<Rightarrow> pyval py" where
  "loop_body_undecorated prev_i = py_add prev_i (PyInt 1)"

definition loop_body :: "pyval \<Rightarrow> pyval py" where
  "loop_body prev_i = jit (call1 loop_body_undecorated) [] [prev_i]"

partial_function (option) g_inner_jitted_while ::
    "pyval \<Rightarrow> pyval \<Rightarrow> pyst \<Rightarrow> ((error + pyval) \<times> pyst) option" where
  "g_inner_jitted_while i n s =
     (case py_lt i n s of
        (Inl e, s1) \<Rightarrow> Some (Inl e, s1)
      | (Inr c, s1) \<Rightarrow>
          (case py_truth c s1 of
             (Inl e, s2) \<Rightarrow> Some (Inl e, s2)
           | (Inr b, s2) \<Rightarrow>
               if b then
                 (case loop_body i s2 of
                    (Inl e, s3) \<Rightarrow> Some (Inl e, s3)
                  | (Inr i', s3) \<Rightarrow> g_inner_jitted_while i' n s3)
               else Some (Inr i, s2)))"

definition g_inner_jitted :: "pyval \<Rightarrow> pyval \<Rightarrow> pyst \<Rightarrow> ((error + pyval) \<times> pyst) option" where
  "g_inner_jitted x n s =
     (case g_inner_jitted_while (PyInt 0) n s of
        None \<Rightarrow> None
      | Some (Inl e, s1) \<Rightarrow> Some (Inl e, s1)
      | Some (Inr i, s1) \<Rightarrow> Some (py_add x i s1))"

text \<open>
  \<^verbatim>\<open>
  def unjitted_loop_body(prev_i):
    return prev_i + 1

  def g_inner_jitted_poorly(x, n):
    i = 0
    while i < n:
      # Don't do this!
      i = jax.jit(unjitted_loop_body)(i)
    return x + i
  \<close>
\<close>

definition unjitted_loop_body :: "pyval \<Rightarrow> pyval py" where
  "unjitted_loop_body prev_i = py_add prev_i (PyInt 1)"

partial_function (option) g_inner_jitted_poorly_while ::
    "pyval \<Rightarrow> pyval \<Rightarrow> pyst \<Rightarrow> ((error + pyval) \<times> pyst) option" where
  "g_inner_jitted_poorly_while i n s =
     (case py_lt i n s of
        (Inl e, s1) \<Rightarrow> Some (Inl e, s1)
      | (Inr c, s1) \<Rightarrow>
          (case py_truth c s1 of
             (Inl e, s2) \<Rightarrow> Some (Inl e, s2)
           | (Inr b, s2) \<Rightarrow>
               if b then
                 (case jit (call1 unjitted_loop_body) [] [i] s2 of
                    (Inl e, s3) \<Rightarrow> Some (Inl e, s3)
                  | (Inr i', s3) \<Rightarrow> g_inner_jitted_poorly_while i' n s3)
               else Some (Inr i, s2)))"

definition g_inner_jitted_poorly ::
    "pyval \<Rightarrow> pyval \<Rightarrow> pyst \<Rightarrow> ((error + pyval) \<times> pyst) option" where
  "g_inner_jitted_poorly x n s =
     (case g_inner_jitted_poorly_while (PyInt 0) n s of
        None \<Rightarrow> None
      | Some (Inl e, s1) \<Rightarrow> Some (Inl e, s1)
      | Some (Inr i, s1) \<Rightarrow> Some (py_add x i s1))"

text \<open>The integer a Python int or an int32 device scalar stands for.\<close>

fun int_value :: "pyval \<Rightarrow> int option" where
  "int_value (PyInt k) = Some k"
| "int_value (DevInt w) = Some (sint w)"
| "int_value _ = None"

subsection \<open>Notions used in the statements and proofs\<close>

text \<open>The last three statements of \<open>log2\<close>, which the three logarithm functions share.\<close>

definition log_ratio :: "pyval \<Rightarrow> pyval py" where
  "log_ratio x =
     bind (jnp_log x) (\<lambda>ln_x.
     bind (jnp_log (PyFloat 2)) (\<lambda>ln_2.
     py_truediv ln_x ln_2))"

text \<open>
  The jaxpr printed by the first two cells:
  \<^verbatim>\<open>
  { lambda  ; a.
    let b = log a
        c = log 2.0
        d = div b c
    in (d,) }
  \<close>
  and the one printed by the third: \<^verbatim>\<open>{ lambda  ; a. let  in (a,) }\<close>.
\<close>

definition log2_jaxpr :: jaxpr where
  "log2_jaxpr =
     \<lparr>invars = [0],
      eqns = [Eqn 1 Log [Var 0], Eqn 2 Log [Lit (PyFloat 2)], Eqn 3 Div [Var 1, Var 2]],
      outs = [Var 3]\<rparr>"

definition identity_jaxpr :: jaxpr where
  "identity_jaxpr = \<lparr>invars = [0], eqns = [], outs = [Var 0]\<rparr>"

text \<open>The session after the calls \<open>log2(y)\<close> for the \<open>y\<close> of a list, in order.\<close>

definition after_calls :: "pyval list \<Rightarrow> pyst \<Rightarrow> pyst" where
  "after_calls ys s = foldl (\<lambda>t y. snd (log2 y t)) s ys"

text \<open>
  \<open>framework_only s s'\<close>: the session \<open>s'\<close> is \<open>s\<close> but for the framework's trace in progress.
  The list and the printed output are those of \<open>s\<close>, and no trace has begun when none was in
  progress, so that outside a trace \<open>s'\<close> is \<open>s\<close>. A computation \<open>touches_only_trace\<close> when
  that holds of the session it leaves, whatever it returns or raises.
\<close>

definition framework_only :: "pyst \<Rightarrow> pyst \<Rightarrow> bool" where
  "framework_only s s' =
     (global_list s' = global_list s \<and> stdout s' = stdout s \<and>
      (trace s = None \<longrightarrow> trace s' = None))"


text \<open>The number the loop counter is compared with, when the comparison can come out true.\<close>

fun bound :: "pyval \<Rightarrow> real" where
  "bound (PyInt b) = real_of_int b"
| "bound (PyFloat y) = y"
| "bound (PyBool b) = of_bool b"
| "bound (DevInt w) = real_of_int (sint w)"
| "bound (DevFloat y) = y"
| "bound (DevBool b) = of_bool b"
| "bound _ = 0"

section \<open>Termination of the loop of \<open>g\<close>\<close>

lemma sint_int32_of_int: "int32_of_int k = Inr w \<Longrightarrow> sint w = k"
  by (auto simp: int32_of_int_def int_word_sint split: if_splits)

lemma signed_less_sint: "(a <s b) = (sint a < sint b)" for a b :: "32 word"
  by (simp add: word_sless_alt)

lemma py_lt_true:
  assumes "py_lt (PyInt i) n s = (Inr c, s1)" and "py_truth c s1 = (Inr True, s2)"
  shows "real_of_int i < bound n"
  using assms
  by (cases n)
    (auto simp: py_lt_def py_binop_def jax_bind_def eager_def ret_def raise_def signed_less_sint
      simp del: of_int_sint dest!: sint_int32_of_int
      split: option.splits prod.splits sum.splits if_splits)

termination g_while
proof (relation "measure (\<lambda>(i, n, k, s). nat \<lceil>bound n - real_of_int i\<rceil>)")
  show "wf (measure (\<lambda>(i, n, k, s). nat \<lceil>bound n - real_of_int i\<rceil>))"
    by simp
next
  fix i n k s x y b xa ya ba
  assume "(x, y) = py_lt (PyInt i) n s" "x = Inr b" "(xa, ya) = py_truth b y" "xa = Inr ba" "ba"
  then have "py_lt (PyInt i) n s = (Inr b, y)" "py_truth b y = (Inr True, ya)"
    by simp_all
  then have "real_of_int i < bound n"
    by (rule py_lt_true)
  then show "((i + 1, n, Suc k, ya), i, n, k, s)
      \<in> measure (\<lambda>(i, n, k, s). nat \<lceil>bound n - real_of_int i\<rceil>)"
    by simp linarith
qed

declare g_while.simps [simp del]

section \<open>The functions on Python ints\<close>

lemma py_lt_ints: "py_lt (PyInt i) (PyInt n) s = (Inr (PyBool (i < n)), s)"
  by (simp add: py_lt_def py_binop_def)

lemma py_add_ints: "py_add (PyInt a) (PyInt b) s = (Inr (PyInt (a + b)), s)"
  by (simp add: py_add_def py_binop_def)

text \<open>
  From any counter \<open>i\<close>, the loop of \<open>g\<close> stops at \<open>max i n\<close> after \<open>max i n - i\<close> rounds,
  without touching the session.
\<close>

lemma g_while_ints:
  "g_while i (PyInt n) k s = (Inr (max i n, k + nat (max i n - i)), s)"
proof (induction "nat (n - i)" arbitrary: i k)
  case 0
  then have "\<not> i < n" by simp
  then show ?case
    by (subst g_while.simps) (simp add: py_lt_ints ret_def max_def)
next
  case (Suc m)
  then have lt: "i < n" and m: "m = nat (n - (i + 1))" by linarith+
  have "g_while i (PyInt n) k s = g_while (i + 1) (PyInt n) (Suc k) s"
    using lt by (subst g_while.simps) (simp add: py_lt_ints ret_def)
  also have "\<dots> = (Inr (max (i + 1) n, Suc k + nat (max (i + 1) n - (i + 1))), s)"
    by (rule Suc.hyps(1) [OF m])
  also have "\<dots> = (Inr (max i n, k + nat (max i n - i)), s)"
    using lt by (simp add: max_def)
  finally show ?case .
qed

lemma g_ints: "g (PyInt x) (PyInt n) s = (Inr (PyInt (x + max n 0)), s)"
  by (simp add: g_def bind_def g_while_ints py_add_ints max_def)

text \<open>
  Claim C8. For every integer \<open>x\<close> and every integer \<open>n\<close>, \<open>g(x, n)\<close> terminates: its while
  loop runs exactly \<open>max(n, 0)\<close> iterations (the loop ends with \<open>i = max(n, 0)\<close> after that
  many executions of its body), and \<open>g\<close> returns \<open>x + n\<close> when \<open>n \<ge> 0\<close> and \<open>x\<close> when
  \<open>n < 0\<close>. \<open>g_while\<close> is a total function (its termination is proved above, for every
  value of \<open>n\<close>), and the result is a value, not an exception, in every session state.
\<close>

theorem g_terminates:
  "g_while 0 (PyInt n) 0 s = (Inr (max n 0, nat (max n 0)), s) \<and>
   g (PyInt x) (PyInt n) s = (Inr (PyInt (if 0 \<le> n then x + n else x)), s)"
  by (simp add: g_def bind_def g_while_ints py_add_ints max_def)

text \<open>The call of the notebook: \<open>g(10, 20)\<close> is \<open>30\<close>.\<close>

lemma g_10_20: "g (PyInt 10) (PyInt 20) s = (Inr (PyInt 30), s)"
  by (simp add: g_def bind_def g_while_ints py_add_ints)

section \<open>What the functions do to the session\<close>

lemma jax_bind_frame:
  "jax_bind p vs s = (r, s') \<Longrightarrow> global_list s' = global_list s \<and> stdout s' = stdout s"
  by (auto simp: jax_bind_def split: option.splits prod.splits if_splits)

lemma jax_bind_untraced:
  "jax_bind p vs s = (r, s') \<Longrightarrow> trace s = None \<Longrightarrow> s' = s"
  by (auto simp: jax_bind_def split: option.splits prod.splits if_splits)

lemma jax_bind_global_list:
  "jax_bind p vs (s\<lparr>global_list := gl\<rparr>) =
     (fst (jax_bind p vs s), (snd (jax_bind p vs s))\<lparr>global_list := gl\<rparr>)"
  by (auto simp: jax_bind_def split: option.splits prod.splits if_splits)

lemma py_binop_frame:
  "py_binop p a b s = (r, s') \<Longrightarrow> global_list s' = global_list s \<and> stdout s' = stdout s"
  by (auto simp: py_binop_def dest: jax_bind_frame split: option.splits)

lemma py_binop_untraced:
  "py_binop p a b s = (r, s') \<Longrightarrow> trace s = None \<Longrightarrow> s' = s"
  by (auto simp: py_binop_def dest: jax_bind_untraced split: option.splits)

lemma py_binop_global_list:
  "py_binop p a b (s\<lparr>global_list := gl\<rparr>) =
     (fst (py_binop p a b s), (snd (py_binop p a b s))\<lparr>global_list := gl\<rparr>)"
  by (auto simp: py_binop_def jax_bind_global_list split: option.splits)



lemma bindE:
  assumes "bind m k s = (r, s')"
  obtains e where "m s = (Inl e, s')" "r = Inl e"
  | a s1 where "m s = (Inr a, s1)" "k a s1 = (r, s')"
  using assms by (auto simp: bind_def split: prod.splits sum.splits)

lemma bind_global_list:
  assumes "\<And>t. m (t\<lparr>global_list := gl\<rparr>) = (fst (m t), (snd (m t))\<lparr>global_list := gl\<rparr>)"
    and "\<And>a t. k a (t\<lparr>global_list := gl\<rparr>) = (fst (k a t), (snd (k a t))\<lparr>global_list := gl\<rparr>)"
  shows "bind m k (s\<lparr>global_list := gl\<rparr>) =
           (fst (bind m k s), (snd (bind m k s))\<lparr>global_list := gl\<rparr>)"
  by (auto simp: bind_def assms split: prod.splits sum.splits)

subsection \<open>\<open>log2\<close>\<close>

lemma log2_split: "log2 x s = log_ratio x (s\<lparr>global_list := global_list s @ [x]\<rparr>)"
  by (simp add: log2_def log_ratio_def bind_def list_append_def)

lemma log2_with_print_split:
  "log2_with_print x s = log_ratio x (s\<lparr>stdout := stdout s @ [[Text ''printed x:'', Val x]]\<rparr>)"
  by (simp add: log2_with_print_def log_ratio_def bind_def py_print_def)

lemma log_ratio_frame:
  assumes "log_ratio x s = (r, s')"
  shows "global_list s' = global_list s \<and> stdout s' = stdout s"
  using assms unfolding log_ratio_def jnp_log_def py_truediv_def
  by (elim bindE) (auto dest!: jax_bind_frame py_binop_frame)

lemma log_ratio_untraced:
  assumes "log_ratio x s = (r, s')" and "trace s = None"
  shows "s' = s"
  using assms unfolding log_ratio_def jnp_log_def py_truediv_def
  by (elim bindE) (auto dest: jax_bind_untraced py_binop_untraced)

lemma log_ratio_global_list:
  "log_ratio x (s\<lparr>global_list := gl\<rparr>) =
     (fst (log_ratio x s), (snd (log_ratio x s))\<lparr>global_list := gl\<rparr>)"
  unfolding log_ratio_def jnp_log_def py_truediv_def
  by (intro bind_global_list jax_bind_global_list py_binop_global_list)

lemma log_ratio_float:
  "trace s = None \<Longrightarrow> 0 < r \<Longrightarrow> log_ratio (PyFloat r) s = (Inr (DevFloat (ln r / ln 2)), s)"
  by (simp add: log_ratio_def jnp_log_def bind_def jax_bind_def eager_def py_truediv_def
      py_binop_def)

lemma log2_untraced:
  assumes "trace s = None"
  shows "snd (log2 x s) = s\<lparr>global_list := global_list s @ [x]\<rparr>"
proof -
  let ?s1 = "s\<lparr>global_list := global_list s @ [x]\<rparr>"
  obtain v s' where run: "log_ratio x ?s1 = (v, s')"
    by (cases "log_ratio x ?s1")
  then have "s' = ?s1"
    using assms by (intro log_ratio_untraced [OF run]) simp
  with run show ?thesis by (simp add: log2_split)
qed

lemma log2_value_global_list: "fst (log2 x (s\<lparr>global_list := gl\<rparr>)) = fst (log2 x s)"
  using log_ratio_global_list [where x = x and s = s and gl = "gl @ [x]"]
    log_ratio_global_list [where x = x and s = s and gl = "global_list s @ [x]"]
  by (simp add: log2_split)

lemma after_calls_untraced:
  "trace s = None \<Longrightarrow> after_calls ys s = s\<lparr>global_list := global_list s @ ys\<rparr>"
  unfolding after_calls_def
proof (induction ys arbitrary: s)
  case Nil
  then show ?case by simp
next
  case (Cons y ys)
  let ?s1 = "s\<lparr>global_list := global_list s @ [y]\<rparr>"
  have "foldl (\<lambda>t y. snd (log2 y t)) ?s1 ys = ?s1\<lparr>global_list := global_list ?s1 @ ys\<rparr>"
    using Cons.prems by (intro Cons.IH) simp
  then show ?case
    using Cons.prems by (simp add: log2_untraced)
qed

text \<open>
  Claim C10. Each call to \<open>log2(x)\<close> appends exactly one element, the argument \<open>x\<close>, to the
  module-level \<open>global_list\<close> and changes no other program state (nothing is printed; outside
  a trace the session is otherwise the same); the returned value does not depend on the
  contents of \<open>global_list\<close>, so a call returns the same value however many calls of \<open>log2\<close>
  preceded it; for a positive float \<open>r\<close> that value is \<open>ln(r)/ln(2)\<close>.
\<close>

theorem log2_appends_once:
  "global_list (snd (log2 x s)) = global_list s @ [x] \<and>
   stdout (snd (log2 x s)) = stdout s \<and>
   (trace s = None \<longrightarrow> snd (log2 x s) = s\<lparr>global_list := global_list s @ [x]\<rparr>) \<and>
   fst (log2 x (s\<lparr>global_list := gl\<rparr>)) = fst (log2 x s) \<and>
   (trace s = None \<longrightarrow> fst (log2 x (after_calls ys s)) = fst (log2 x s)) \<and>
   (trace s = None \<and> 0 < r \<longrightarrow> fst (log2 (PyFloat r) s) = Inr (DevFloat (ln r / ln 2)))"
proof -
  let ?s1 = "s\<lparr>global_list := global_list s @ [x]\<rparr>"
  obtain v s' where run: "log_ratio x ?s1 = (v, s')"
    by (cases "log_ratio x ?s1")
  from log_ratio_frame [OF run]
  have "global_list s' = global_list s @ [x]" and "stdout s' = stdout s"
    by simp_all
  then have "global_list (snd (log2 x s)) = global_list s @ [x]"
    and "stdout (snd (log2 x s)) = stdout s"
    using run by (simp_all add: log2_split)
  moreover have "trace s = None \<Longrightarrow> fst (log2 x (after_calls ys s)) = fst (log2 x s)"
    by (simp add: after_calls_untraced log2_value_global_list)
  moreover have "trace s = None \<Longrightarrow> 0 < r \<Longrightarrow>
      fst (log2 (PyFloat r) s) = Inr (DevFloat (ln r / ln 2))"
    by (simp add: log2_split log_ratio_float)
  ultimately show ?thesis
    by (simp add: log2_untraced log2_value_global_list)
qed

theorem log2_appends_once_witness:
  "trace initial = None \<and> (0::real) < 8 \<and>
   snd (log2 (PyFloat 8) initial) = initial\<lparr>global_list := [PyFloat 8]\<rparr> \<and>
   fst (log2 (PyFloat 8) (after_calls [PyFloat 3, PyFloat 5] initial)) =
     fst (log2 (PyFloat 8) initial) \<and>
   fst (log2 (PyFloat 8) initial) = Inr (DevFloat (ln 8 / ln 2))"
  using log2_appends_once
    [where x = "PyFloat 8" and s = initial and gl = "[]" and r = 8
       and ys = "[PyFloat 3, PyFloat 5]"]
  by (simp add: initial_def)

section \<open>Tracing\<close>

lemma broadcast_scalar: "broadcast_shapes sh [] = Some sh"
  by (cases "rev sh") (auto simp: broadcast_shapes_def dest: arg_cong [where f = rev])

lemma scalar_broadcast: "broadcast_shapes [] sh = Some sh"
  by (simp add: broadcast_shapes_def)

lemmas nat_numerals = numeral_2_eq_2 numeral_3_eq_3

text \<open>Under a trace, the three statements record three lines and return the last tracer.\<close>

lemma log_ratio_traced:
  "trace s = Some (es, k) \<Longrightarrow>
   log_ratio (Tracer v a) s =
     (Inr (Tracer (Suc (Suc k)) (ShapedArray Float32 (aval_shape a))),
      s\<lparr>trace := Some (es @ [Eqn k Log [Var v], Eqn (Suc k) Log [Lit (PyFloat 2)],
                             Eqn (Suc (Suc k)) Div [Var k, Var (Suc k)]], Suc (Suc (Suc k)))\<rparr>)"
  by (cases a)
    (simp add: log_ratio_def jnp_log_def bind_def jax_bind_def py_truediv_def py_binop_def
      broadcast_scalar)

text \<open>
  Claim C3. Tracing executes the Python function exactly once, with each argument replaced
  by a placeholder tracer value; the Python side effects of that single execution happen at
  trace time (one element, the tracer, is appended to \<open>global_list\<close> by \<open>log2\<close>; one line,
  showing the tracer, is printed by \<open>log2_with_print\<close>) but do not appear in the recorded
  jaxpr: both functions give the jaxpr of the recorded outputs, which holds only the
  framework operations \<open>log\<close>, \<open>log\<close> and \<open>div\<close>, whatever the argument and the session.
\<close>

theorem tracing_runs_python_once:
  assumes "trace s = None"
  shows "make_jaxpr (call1 log2) [x] s =
           (Inr log2_jaxpr, s\<lparr>global_list := global_list s @ [Tracer 0 (abstractify x)]\<rparr>) \<and>
         make_jaxpr (call1 log2_with_print) [x] s =
           (Inr log2_jaxpr,
            s\<lparr>stdout := stdout s @ [[Text ''printed x:'', Val (Tracer 0 (abstractify x))]]\<rparr>)"
  using assms
  by (simp add: make_jaxpr_def trace_to_jaxpr_def call1_def log2_split log2_with_print_split
      log_ratio_traced log2_jaxpr_def nat_numerals)

theorem tracing_runs_python_once_witness:
  "trace initial = None \<and>
   make_jaxpr (call1 log2) [PyFloat 3] initial =
     (Inr log2_jaxpr, initial\<lparr>global_list := [Tracer 0 (ShapedArray Float32 [])]\<rparr>) \<and>
   make_jaxpr (call1 log2_with_print) [PyFloat 3] initial =
     (Inr log2_jaxpr,
      initial\<lparr>stdout := [[Text ''printed x:'', Val (Tracer 0 (ShapedArray Float32 []))]]\<rparr>)"
  using tracing_runs_python_once [where s = initial and x = "PyFloat 3"]
  by (simp add: initial_def)

lemma log2_if_rank_2_tracer:
  "log2_if_rank_2 (Tracer v a) s =
     (if length (aval_shape a) = 2 then log_ratio (Tracer v a) s else (Inr (Tracer v a), s))"
  by (simp add: log2_if_rank_2_def log_ratio_def bind_def ret_def)

text \<open>
  Claim C7. During tracing, Python control flow that depends only on an argument's shape is
  resolved at trace time and the recorded jaxpr contains only the branch actually taken: for
  every input whose rank is not 2, \<open>log2_if_rank_2\<close> returns the tracer it was given and
  performs no framework operation, so its jaxpr is the identity, with no \<open>log\<close> and no
  \<open>div\<close>; for an input of rank 2 the jaxpr is that of the other branch.
\<close>

theorem log2_if_rank_2_branch_taken:
  assumes "trace s = None"
  shows "(length (aval_shape (abstractify x)) \<noteq> 2 \<longrightarrow>
            log2_if_rank_2 (Tracer v (abstractify x)) t = (Inr (Tracer v (abstractify x)), t) \<and>
            make_jaxpr (call1 log2_if_rank_2) [x] s = (Inr identity_jaxpr, s)) \<and>
         (length (aval_shape (abstractify x)) = 2 \<longrightarrow>
            make_jaxpr (call1 log2_if_rank_2) [x] s = (Inr log2_jaxpr, s))"
  using assms
  by (simp add: make_jaxpr_def trace_to_jaxpr_def call1_def log2_if_rank_2_tracer
      log_ratio_traced log2_jaxpr_def identity_jaxpr_def nat_numerals)

theorem log2_if_rank_2_branch_taken_witness:
  "trace initial = None \<and>
   length (aval_shape (abstractify (DevArray Int32 [3] [1, 2, 3]))) \<noteq> 2 \<and>
   make_jaxpr (call1 log2_if_rank_2) [DevArray Int32 [3] [1, 2, 3]] initial =
     (Inr identity_jaxpr, initial) \<and>
   length (aval_shape (abstractify (DevArray Float32 [1, 2] [1, 2]))) = 2 \<and>
   make_jaxpr (call1 log2_if_rank_2) [DevArray Float32 [1, 2] [1, 2]] initial =
     (Inr log2_jaxpr, initial)"
  using log2_if_rank_2_branch_taken
      [where s = initial and x = "DevArray Int32 [3] [1, 2, 3]" and v = 0 and t = initial]
    log2_if_rank_2_branch_taken
      [where s = initial and x = "DevArray Float32 [1, 2] [1, 2]" and v = 0 and t = initial]
  by (simp add: initial_def)

section \<open>\<open>jax.jit\<close> on \<open>f\<close> and \<open>g\<close>\<close>

text \<open>
  On a tracer, \<open>f\<close> records the comparison \<open>x > 0\<close> and fails when \<open>if\<close> asks for its truth
  value; \<open>g\<close> fails in the same way at the first test of its loop.
\<close>

lemma f_traced:
  "trace s = Some (es, k) \<Longrightarrow>
   f (Tracer v a) s =
     (Inl ConcretizationTypeError,
      s\<lparr>trace := Some (es @ [Eqn k Gt [Var v, Lit (PyInt 0)]], Suc k)\<rparr>)"
  by (cases a)
    (simp add: f_def bind_def py_gt_def py_binop_def jax_bind_def broadcast_scalar raise_def)

lemma g_traced:
  "trace s = Some (es, k) \<Longrightarrow>
   g x (Tracer v a) s =
     (Inl ConcretizationTypeError,
      s\<lparr>trace := Some (es @ [Eqn k Lt [Lit (PyInt 0), Var v]], Suc k)\<rparr>)"
  by (cases a)
    (simp add: g_def bind_def g_while.simps [of 0] py_lt_def py_binop_def jax_bind_def
      scalar_broadcast raise_def)

text \<open>
  Claim C2. Calling a \<open>jax.jit\<close>-compiled function whose Python control flow branches on the
  value of a traced argument fails during tracing rather than returning a result:
  \<open>f_jit\<close>, where \<open>f\<close> conditions on \<open>x > 0\<close>, and \<open>g_jit\<close>, where the while loop of \<open>g\<close> is
  conditioned on \<open>n\<close>, raise \<open>ConcretizationTypeError\<close> on every argument, \<open>f_jit(10)\<close> and
  \<open>g_jit(10, 20)\<close> among them, and leave the session as it was. The failure is that of the
  tracing: tracing \<open>f\<close> or \<open>g\<close> alone raises the same error.
\<close>

theorem jit_value_branch_raises:
  assumes "trace s = None"
  shows "f_jit x s = (Inl ConcretizationTypeError, s) \<and>
         g_jit x n s = (Inl ConcretizationTypeError, s) \<and>
         make_jaxpr (call1 f) [x] s = (Inl ConcretizationTypeError, s) \<and>
         make_jaxpr (call2 g) [x, n] s = (Inl ConcretizationTypeError, s)"
  using assms
  by (simp add: f_jit_def g_jit_def jit_def make_jaxpr_def trace_to_jaxpr_def call1_def
      call2_def f_traced g_traced)

theorem jit_value_branch_raises_witness:
  "trace initial = None \<and>
   f_jit (PyInt 10) initial = (Inl ConcretizationTypeError, initial) \<and>
   g_jit (PyInt 10) (PyInt 20) initial = (Inl ConcretizationTypeError, initial) \<and>
   make_jaxpr (call1 f) [PyInt 10] initial = (Inl ConcretizationTypeError, initial) \<and>
   make_jaxpr (call2 g) [PyInt 10, PyInt 20] initial = (Inl ConcretizationTypeError, initial)"
  using jit_value_branch_raises [where s = initial and x = "PyInt 10" and n = "PyInt 20"]
  by (simp add: initial_def)

text \<open>
  With the argument the control flow depends on made static, the calls of the notebook give
  the recorded outputs \<open>10\<close> and \<open>30\<close>, as int32 device scalars.
\<close>

lemma f_jit_correct_10: "f_jit_correct (PyInt 10) initial = (Inr (DevInt 10), initial)"
  by (simp add: f_jit_correct_def jit_def trace_to_jaxpr_def call1_def f_def bind_def py_gt_def
      py_binop_def ret_def initial_def eval_jaxpr_def int32_of_int_def)

lemma g_jit_correct_10_20:
  "g_jit_correct (PyInt 10) (PyInt 20) initial = (Inr (DevInt 30), initial)"
  by (simp add: g_jit_correct_def jit_def trace_to_jaxpr_def call2_def g_def bind_def
      g_while_ints py_add_def py_binop_def jax_bind_def scalar_broadcast promote_def
      initial_def eval_jaxpr_def int32_of_int_def)

section \<open>The loops with a jitted body\<close>

lemma sint_word_of_int32:
  "- (2 ^ 31) \<le> k \<Longrightarrow> k < 2 ^ 31 \<Longrightarrow> sint (word_of_int k :: 32 word) = k"
  by (simp add: int_word_sint)

lemma int32_of_int_range:
  "- (2 ^ 31) \<le> k \<Longrightarrow> k < 2 ^ 31 \<Longrightarrow> int32_of_int k = Inr (word_of_int k)"
  by (simp add: int32_of_int_def)

lemma int32_of_int_above: "2 ^ 31 \<le> k \<Longrightarrow> int32_of_int k = Inl OverflowError"
  by (simp add: int32_of_int_def)

text \<open>Below the largest int32, adding one on the device is adding one.\<close>

lemma sint_succ:
  fixes w :: "32 word"
  assumes "sint w < n" and "n < 2 ^ 31"
  shows "sint (w + 1) = sint w + 1"
proof -
  have "- (2 ^ 31) \<le> sint w" using sint_ge [of w] by simp
  then have "sint (word_of_int (sint w + 1) :: 32 word) = sint w + 1"
    using assms by (intro sint_word_of_int32) auto
  then show ?thesis by (simp add: wi_hom_syms)
qed

text \<open>
  The jitted \<open>prev_i + 1\<close>: traced to the jaxpr \<open>{ lambda ; a. let b = add a 1 in (b,) }\<close>,
  which is run on the argument as an int32.
\<close>

lemma jit_increment_dev:
  "trace s = None \<Longrightarrow>
   jit (call1 (\<lambda>prev_i. py_add prev_i (PyInt 1))) [] [DevInt w] s = (Inr (DevInt (w + 1)), s)"
  by (simp add: jit_def trace_to_jaxpr_def call1_def py_add_def py_binop_def jax_bind_def
      promote_def eval_jaxpr_def int32_of_int_def broadcast_shapes_def)

lemma jit_increment_zero:
  "trace s = None \<Longrightarrow>
   jit (call1 (\<lambda>prev_i. py_add prev_i (PyInt 1))) [] [PyInt 0] s = (Inr (DevInt 1), s)"
  by (simp add: jit_def trace_to_jaxpr_def call1_def py_add_def py_binop_def jax_bind_def
      promote_def eval_jaxpr_def int32_of_int_def broadcast_shapes_def)

lemma loop_body_dev:
  "trace s = None \<Longrightarrow> loop_body (DevInt w) s = (Inr (DevInt (w + 1)), s)"
  unfolding loop_body_def loop_body_undecorated_def by (rule jit_increment_dev)

lemma loop_body_zero:
  "trace s = None \<Longrightarrow> loop_body (PyInt 0) s = (Inr (DevInt 1), s)"
  unfolding loop_body_def loop_body_undecorated_def by (rule jit_increment_zero)

lemma jit_unjitted_loop_body_dev:
  "trace s = None \<Longrightarrow>
   jit (call1 unjitted_loop_body) [] [DevInt w] s = (Inr (DevInt (w + 1)), s)"
  unfolding unjitted_loop_body_def by (rule jit_increment_dev)

lemma jit_unjitted_loop_body_zero:
  "trace s = None \<Longrightarrow>
   jit (call1 unjitted_loop_body) [] [PyInt 0] s = (Inr (DevInt 1), s)"
  unfolding unjitted_loop_body_def by (rule jit_increment_zero)

lemma py_lt_dev_int:
  "trace s = None \<Longrightarrow>
   py_lt (DevInt w) (PyInt n) s =
     (case int32_of_int n of Inl e \<Rightarrow> (Inl e, s) | Inr v \<Rightarrow> (Inr (DevBool (w <s v)), s))"
  by (simp add: py_lt_def py_binop_def jax_bind_def eager_def split: sum.splits)

lemma py_add_int_dev:
  "trace s = None \<Longrightarrow>
   py_add (PyInt x) (DevInt w) s =
     (case int32_of_int x of Inl e \<Rightarrow> (Inl e, s) | Inr v \<Rightarrow> (Inr (DevInt (v + w)), s))"
  by (simp add: py_add_def py_binop_def jax_bind_def eager_def split: sum.splits)

text \<open>From a device counter not above \<open>n\<close>, the loop climbs to \<open>n\<close> and returns.\<close>

lemma g_inner_jitted_while_dev:
  fixes w :: "32 word"
  assumes "trace s = None" and "n < 2 ^ 31" and "sint w \<le> n"
  shows "g_inner_jitted_while (DevInt w) (PyInt n) s = Some (Inr (DevInt (word_of_int n)), s)"
  using assms(3)
proof (induction "nat (n - sint w)" arbitrary: w)
  case 0
  then have eq: "sint w = n" by simp
  have lo: "- (2 ^ 31) \<le> n" using sint_ge [of w] eq by simp
  have "word_of_int (sint w) = w" by (simp flip: scast_eq)
  then have "word_of_int n = w" using eq by simp
  then show ?case
    using assms(1,2) lo eq
    by (subst g_inner_jitted_while.simps)
      (simp add: py_lt_dev_int int32_of_int_range ret_def signed_less_sint)
next
  case (Suc m)
  then have lt: "sint w < n" by linarith
  have lo: "- (2 ^ 31) \<le> n" using sint_ge [of w] lt by simp
  have step: "sint (w + 1) = sint w + 1"
    using lt assms(2) by (rule sint_succ)
  have m: "m = nat (n - sint (w + 1))" and le: "sint (w + 1) \<le> n"
    using Suc.hyps(2) lt step by linarith+
  have "g_inner_jitted_while (DevInt w) (PyInt n) s =
      g_inner_jitted_while (DevInt (w + 1)) (PyInt n) s"
    using assms(1,2) lo lt
    by (subst g_inner_jitted_while.simps)
      (simp add: py_lt_dev_int int32_of_int_range ret_def signed_less_sint sint_word_of_int32
        loop_body_dev)
  also have "\<dots> = Some (Inr (DevInt (word_of_int n)), s)"
    by (rule Suc.hyps(1) [OF m le])
  finally show ?case .
qed

lemma g_inner_jitted_poorly_while_dev:
  fixes w :: "32 word"
  assumes "trace s = None" and "n < 2 ^ 31" and "sint w \<le> n"
  shows "g_inner_jitted_poorly_while (DevInt w) (PyInt n) s =
           Some (Inr (DevInt (word_of_int n)), s)"
  using assms(3)
proof (induction "nat (n - sint w)" arbitrary: w)
  case 0
  then have eq: "sint w = n" by simp
  have lo: "- (2 ^ 31) \<le> n" using sint_ge [of w] eq by simp
  have "word_of_int (sint w) = w" by (simp flip: scast_eq)
  then have "word_of_int n = w" using eq by simp
  then show ?case
    using assms(1,2) lo eq
    by (subst g_inner_jitted_poorly_while.simps)
      (simp add: py_lt_dev_int int32_of_int_range ret_def signed_less_sint)
next
  case (Suc m)
  then have lt: "sint w < n" by linarith
  have lo: "- (2 ^ 31) \<le> n" using sint_ge [of w] lt by simp
  have step: "sint (w + 1) = sint w + 1"
    using lt assms(2) by (rule sint_succ)
  have m: "m = nat (n - sint (w + 1))" and le: "sint (w + 1) \<le> n"
    using Suc.hyps(2) lt step by linarith+
  have "g_inner_jitted_poorly_while (DevInt w) (PyInt n) s =
      g_inner_jitted_poorly_while (DevInt (w + 1)) (PyInt n) s"
    using assms(1,2) lo lt
    by (subst g_inner_jitted_poorly_while.simps)
      (simp add: py_lt_dev_int int32_of_int_range ret_def signed_less_sint sint_word_of_int32
        jit_unjitted_loop_body_dev)
  also have "\<dots> = Some (Inr (DevInt (word_of_int n)), s)"
    by (rule Suc.hyps(1) [OF m le])
  finally show ?case .
qed

text \<open>
  What the two functions return on Python ints, outside a trace: \<open>x\<close> itself when the loop
  is not entered; an overflow error when \<open>n\<close> or \<open>x\<close> is not an int32; otherwise the int32 sum,
  which wraps around.
\<close>

lemma g_inner_jitted_ints:
  assumes "trace s = None"
  shows "g_inner_jitted (PyInt x) (PyInt n) s =
     Some (if n \<le> 0 then (Inr (PyInt x), s)
           else if 2 ^ 31 \<le> n \<or> x < - (2 ^ 31) \<or> 2 ^ 31 \<le> x then (Inl OverflowError, s)
           else (Inr (DevInt (word_of_int (x + n))), s))"
proof (cases "n \<le> 0")
  case True
  then have "g_inner_jitted_while (PyInt 0) (PyInt n) s = Some (Inr (PyInt 0), s)"
    by (subst g_inner_jitted_while.simps) (simp add: py_lt_ints ret_def)
  with True show ?thesis
    by (simp add: g_inner_jitted_def py_add_ints)
next
  case False
  then have first: "g_inner_jitted_while (PyInt 0) (PyInt n) s =
      g_inner_jitted_while (DevInt 1) (PyInt n) s"
    using assms
    by (subst g_inner_jitted_while.simps) (simp add: py_lt_ints ret_def loop_body_zero)
  show ?thesis
  proof (cases "2 ^ 31 \<le> n")
    case True
    then have "g_inner_jitted_while (DevInt 1) (PyInt n) s = Some (Inl OverflowError, s)"
      using assms
      by (subst g_inner_jitted_while.simps) (simp add: py_lt_dev_int int32_of_int_above)
    with True False first show ?thesis
      by (simp add: g_inner_jitted_def)
  next
    case small: False
    have "g_inner_jitted_while (DevInt 1) (PyInt n) s = Some (Inr (DevInt (word_of_int n)), s)"
      using assms small False by (intro g_inner_jitted_while_dev) simp_all
    with first small False assms show ?thesis
      by (auto simp: g_inner_jitted_def py_add_int_dev int32_of_int_def)
  qed
qed

lemma g_inner_jitted_poorly_ints:
  assumes "trace s = None"
  shows "g_inner_jitted_poorly (PyInt x) (PyInt n) s =
     Some (if n \<le> 0 then (Inr (PyInt x), s)
           else if 2 ^ 31 \<le> n \<or> x < - (2 ^ 31) \<or> 2 ^ 31 \<le> x then (Inl OverflowError, s)
           else (Inr (DevInt (word_of_int (x + n))), s))"
proof (cases "n \<le> 0")
  case True
  then have "g_inner_jitted_poorly_while (PyInt 0) (PyInt n) s = Some (Inr (PyInt 0), s)"
    by (subst g_inner_jitted_poorly_while.simps) (simp add: py_lt_ints ret_def)
  with True show ?thesis
    by (simp add: g_inner_jitted_poorly_def py_add_ints)
next
  case False
  then have first: "g_inner_jitted_poorly_while (PyInt 0) (PyInt n) s =
      g_inner_jitted_poorly_while (DevInt 1) (PyInt n) s"
    using assms
    by (subst g_inner_jitted_poorly_while.simps)
      (simp add: py_lt_ints ret_def jit_unjitted_loop_body_zero)
  show ?thesis
  proof (cases "2 ^ 31 \<le> n")
    case True
    then have "g_inner_jitted_poorly_while (DevInt 1) (PyInt n) s = Some (Inl OverflowError, s)"
      using assms
      by (subst g_inner_jitted_poorly_while.simps) (simp add: py_lt_dev_int int32_of_int_above)
    with True False first show ?thesis
      by (simp add: g_inner_jitted_poorly_def)
  next
    case small: False
    have "g_inner_jitted_poorly_while (DevInt 1) (PyInt n) s =
        Some (Inr (DevInt (word_of_int n)), s)"
      using assms small False by (intro g_inner_jitted_poorly_while_dev) simp_all
    with first small False assms show ?thesis
      by (auto simp: g_inner_jitted_poorly_def py_add_int_dev int32_of_int_def)
  qed
qed

text \<open>
  As stated, claim C9 makes \<open>g_inner_jitted\<close> and \<open>g_inner_jitted_poorly\<close> return the value
  of \<open>g\<close> for every integer \<open>x\<close> and \<open>n\<close>. The jitted body returns an int32, and so does the
  final \<open>x + i\<close>: for \<open>x = 2147483647\<close> and \<open>n = 1\<close> the sum wraps around to \<open>-2147483648\<close>,
  where \<open>g\<close> returns the Python int \<open>2147483648\<close>.
\<close>

theorem inner_jitted_overflow_counterexample:
  "g (PyInt 2147483647) (PyInt 1) initial = (Inr (PyInt 2147483648), initial) \<and>
   g_inner_jitted (PyInt 2147483647) (PyInt 1) initial =
     Some (Inr (DevInt (- 2147483648)), initial) \<and>
   g_inner_jitted_poorly (PyInt 2147483647) (PyInt 1) initial =
     Some (Inr (DevInt (- 2147483648)), initial) \<and>
   int_value (DevInt (- 2147483648)) = Some (- 2147483648) \<and>
   int_value (DevInt (- 2147483648)) \<noteq> int_value (PyInt 2147483648)"
  by (simp add: g_ints g_inner_jitted_ints g_inner_jitted_poorly_ints initial_def)

text \<open>
  Claim C9, amended. On Python ints \<open>x\<close> and \<open>n\<close>, \<open>g_inner_jitted\<close> and
  \<open>g_inner_jitted_poorly\<close> return the same result as each other, since \<open>loop_body\<close> and
  \<open>unjitted_loop_body\<close> both map \<open>i\<close> to \<open>i + 1\<close>. They return what \<open>g\<close> returns when
  \<open>n \<le> 0\<close> (the Python int \<open>x\<close>), and when \<open>0 < n\<close> and \<open>x\<close>, \<open>n\<close> and \<open>x + n\<close> are int32
  values (then as the int32 device scalar of value \<open>x + n\<close>; in particular
  \<open>g_inner_jitted(10, 20)\<close> is \<open>DeviceArray(30, dtype=int32)\<close>).
\<close>

theorem inner_jitted_agree_within_int32:
  assumes "trace s = None"
  shows "g_inner_jitted_poorly (PyInt x) (PyInt n) s = g_inner_jitted (PyInt x) (PyInt n) s \<and>
         (n \<le> 0 \<longrightarrow> g_inner_jitted (PyInt x) (PyInt n) s = Some (g (PyInt x) (PyInt n) s)) \<and>
         (0 < n \<and> n < 2 ^ 31 \<and> - (2 ^ 31) \<le> x \<and> x + n < 2 ^ 31 \<longrightarrow>
            g_inner_jitted (PyInt x) (PyInt n) s =
              Some (Inr (DevInt (word_of_int (x + n))), s) \<and>
            int_value (DevInt (word_of_int (x + n))) = Some (x + n) \<and>
            g (PyInt x) (PyInt n) s = (Inr (PyInt (x + n)), s))"
proof -
  have same: "g_inner_jitted_poorly (PyInt x) (PyInt n) s = g_inner_jitted (PyInt x) (PyInt n) s"
    using assms by (simp add: g_inner_jitted_ints g_inner_jitted_poorly_ints)
  have skipped: "g_inner_jitted (PyInt x) (PyInt n) s = Some (g (PyInt x) (PyInt n) s)"
    if "n \<le> 0"
    using assms that by (simp add: g_inner_jitted_ints g_ints)
  have entered:
    "g_inner_jitted (PyInt x) (PyInt n) s = Some (Inr (DevInt (word_of_int (x + n))), s) \<and>
     int_value (DevInt (word_of_int (x + n))) = Some (x + n) \<and>
     g (PyInt x) (PyInt n) s = (Inr (PyInt (x + n)), s)"
    if "0 < n \<and> n < 2 ^ 31 \<and> - (2 ^ 31) \<le> x \<and> x + n < 2 ^ 31"
  proof -
    have "sint (word_of_int (x + n) :: 32 word) = x + n"
      using that by (intro sint_word_of_int32) auto
    then have "int_value (DevInt (word_of_int (x + n))) = Some (x + n)"
      by (simp only: int_value.simps)
    moreover have "g_inner_jitted (PyInt x) (PyInt n) s =
        Some (Inr (DevInt (word_of_int (x + n))), s)"
      using assms that by (simp add: g_inner_jitted_ints)
    moreover have "g (PyInt x) (PyInt n) s = (Inr (PyInt (x + n)), s)"
      using that by (simp add: g_ints)
    ultimately show ?thesis by blast
  qed
  from same skipped entered show ?thesis by blast
qed

theorem inner_jitted_agree_within_int32_witness:
  "trace initial = None \<and>
   g_inner_jitted (PyInt 10) (PyInt 20) initial = Some (Inr (DevInt 30), initial) \<and>
   g_inner_jitted_poorly (PyInt 10) (PyInt 20) initial = Some (Inr (DevInt 30), initial) \<and>
   int_value (DevInt 30) = Some 30 \<and>
   g (PyInt 10) (PyInt 20) initial = (Inr (PyInt 30), initial) \<and>
   g_inner_jitted (PyInt 10) (PyInt 0) initial = Some (g (PyInt 10) (PyInt 0) initial)"
  using inner_jitted_agree_within_int32 [where s = initial and x = 10 and n = 20]
    inner_jitted_agree_within_int32 [where s = initial and x = 10 and n = 0]
  by (simp add: initial_def)

section \<open>The state of the notebook's own\<close>



text \<open>Read as equations between sessions.\<close>

lemma framework_only_iff:
  "framework_only s s' \<longleftrightarrow> s' = s\<lparr>trace := trace s'\<rparr> \<and> (trace s = None \<longrightarrow> s' = s)"
  by (cases s; cases s') (auto simp: framework_only_def)

































section \<open>The notebook's own logic\<close>

lemma f_ints: "f (PyInt x) s = (Inr (PyInt (if 0 < x then x else 2 * x)), s)"
  by (simp add: f_def bind_def py_gt_def py_mul_def py_binop_def ret_def)

text \<open>
  A framework operation called while a trace is in progress leaves its mark: it adds its line
  to the trace, or it fails.
\<close>

lemma jax_bind_traced:
  assumes "trace s = Some (es, k)"
  shows "jax_bind p vs s = (Inl TypeError, s) \<or>
         (\<exists>a. jax_bind p vs s =
            (Inr (Tracer k a), s\<lparr>trace := Some (es @ [Eqn k p (map atom_of vs)], Suc k)\<rparr>))"
  using assms by (simp add: jax_bind_def split: option.splits)

lemma log2_traced:
  assumes "trace s = Some (es, k)"
  shows "log2 (Tracer v a) s =
     (Inr (Tracer (Suc (Suc k)) (ShapedArray Float32 (aval_shape a))),
      s\<lparr>global_list := global_list s @ [Tracer v a],
        trace := Some (es @ [Eqn k Log [Var v], Eqn (Suc k) Log [Lit (PyFloat 2)],
                             Eqn (Suc (Suc k)) Div [Var k, Var (Suc k)]], Suc (Suc (Suc k)))\<rparr>)"
  using assms by (simp add: log2_split log_ratio_traced)

text \<open>
  As stated, claim C6 has every behaviour of the code cells produced by calls into the
  framework's API. The cell that times \<open>g(10, 20)\<close> calls \<open>g\<close> on Python ints: the result
  \<open>30\<close> comes from the loop and the addition of \<open>g\<close> alone. Run while a trace is in progress,
  the call records nothing, where the same addition with a device operand is a framework
  operation and is recorded.
\<close>

theorem g_makes_no_framework_call:
  "g (PyInt 10) (PyInt 20) initial = (Inr (PyInt 30), initial) \<and>
   g (PyInt 10) (PyInt 20) (initial\<lparr>trace := Some ([], 0)\<rparr>) =
     (Inr (PyInt 30), initial\<lparr>trace := Some ([], 0)\<rparr>) \<and>
   py_add (DevInt 10) (PyInt 20) (initial\<lparr>trace := Some ([], 0)\<rparr>) =
     (Inr (Tracer 0 (ShapedArray Int32 [])),
      initial\<lparr>trace := Some ([Eqn 0 Add [Lit (DevInt 10), Lit (PyInt 20)]], 1)\<rparr>)"
  by (simp add: g_ints py_add_def py_binop_def jax_bind_def broadcast_shapes_def promote_def
      initial_def)

text \<open>
  Claim C6, amended. Not every behaviour the code cells exhibit is produced by calls into the
  external framework's public API: the notebook has a little Python logic of its own, which
  runs without any framework operation. On Python ints \<open>g\<close> (its loop and its addition) and
  \<open>f\<close> (its test and its doubling) compute their results and leave the session untouched
  in every state, a trace in progress included, whereas every framework operation called
  under a trace adds its line to the trace or fails; and the append of \<open>log2\<close> to
  \<open>global_list\<close> is the notebook's own as well: traced, \<open>log2\<close> records the three framework
  operations \<open>log\<close>, \<open>log\<close> and \<open>div\<close>, and the list has grown besides.
\<close>

theorem notebook_own_logic:
  assumes "trace s = Some (es, k)"
  shows "g (PyInt x) (PyInt n) t = (Inr (PyInt (if 0 \<le> n then x + n else x)), t) \<and>
         f (PyInt x) t = (Inr (PyInt (if 0 < x then x else 2 * x)), t) \<and>
         g (PyInt x) (PyInt n) s = (Inr (PyInt (if 0 \<le> n then x + n else x)), s) \<and>
         f (PyInt x) s = (Inr (PyInt (if 0 < x then x else 2 * x)), s) \<and>
         (jax_bind p vs s = (Inl TypeError, s) \<or>
          (\<exists>a. jax_bind p vs s =
             (Inr (Tracer k a),
              s\<lparr>trace := Some (es @ [Eqn k p (map atom_of vs)], Suc k)\<rparr>))) \<and>
         log2 (Tracer v a) s =
           (Inr (Tracer (Suc (Suc k)) (ShapedArray Float32 (aval_shape a))),
            s\<lparr>global_list := global_list s @ [Tracer v a],
              trace := Some (es @ [Eqn k Log [Var v], Eqn (Suc k) Log [Lit (PyFloat 2)],
                                   Eqn (Suc (Suc k)) Div [Var k, Var (Suc k)]],
                             Suc (Suc (Suc k)))\<rparr>)"
  using jax_bind_traced [OF assms, of p vs] log2_traced [OF assms, of v a]
  by (simp add: g_ints f_ints max_def)

theorem notebook_own_logic_witness:
  "trace (initial\<lparr>trace := Some ([], 0)\<rparr>) = Some ([], 0) \<and>
   g (PyInt 10) (PyInt 20) initial = (Inr (PyInt 30), initial) \<and>
   f (PyInt 10) initial = (Inr (PyInt 10), initial) \<and>
   g (PyInt 10) (PyInt 20) (initial\<lparr>trace := Some ([], 0)\<rparr>) =
     (Inr (PyInt 30), initial\<lparr>trace := Some ([], 0)\<rparr>) \<and>
   f (PyInt (- 3)) (initial\<lparr>trace := Some ([], 0)\<rparr>) =
     (Inr (PyInt (- 6)), initial\<lparr>trace := Some ([], 0)\<rparr>) \<and>
   log2 (Tracer 0 (ShapedArray Float32 [])) (initial\<lparr>trace := Some ([], 1)\<rparr>) =
     (Inr (Tracer 3 (ShapedArray Float32 [])),
      initial\<lparr>global_list := [Tracer 0 (ShapedArray Float32 [])],
              trace := Some (eqns log2_jaxpr, 4)\<rparr>)"
  using notebook_own_logic
      [where s = "initial\<lparr>trace := Some ([], 0)\<rparr>" and es = "[]" and k = 0
         and t = initial and x = 10 and n = 20 and p = Log and vs = "[PyFloat 2]"
         and v = 0 and a = "ShapedArray Float32 []"]
    notebook_own_logic
      [where s = "initial\<lparr>trace := Some ([], 0)\<rparr>" and es = "[]" and k = 0
         and t = initial and x = "- 3" and n = 20 and p = Log and vs = "[PyFloat 2]"
         and v = 0 and a = "ShapedArray Float32 []"]
    notebook_own_logic
      [where s = "initial\<lparr>trace := Some ([], 1)\<rparr>" and es = "[]" and k = 1
         and t = initial and x = 10 and n = 20 and p = Log and vs = "[PyFloat 2]"
         and v = 0 and a = "ShapedArray Float32 []"]
  by (simp add: initial_def log2_jaxpr_def nat_numerals)

end
